theory Spec2Isabelle
  imports Complex_Main "HOL-Library.Sublist"
begin

section \<open>The fleet table\<close>

text \<open>
  \<^verbatim>\<open>dashboard.py\<close> is one script over a table of scooters (a data frame, one row per
  scooter, rows in a fixed order). A row is a record with the columns of the frame, the
  frame is the list of its rows. The float columns are read as real numbers: the script
  only compares them with thresholds, which is exact on floats, and averages them.
  A point in time is a count of microseconds; \<^verbatim>\<open>.dt.days\<close> of a difference of two of them
  is the floor of the difference in days.
\<close>

datatype status = Available | OnTrip | Maintenance | Alert

type_synonym timestamp = int

record scooter =
  scooter_id :: string
  hub :: string
  status :: status
  battery_level :: real
  lat :: real
  lon :: real
  last_service :: timestamp
  total_trips :: int
  revenue_today :: real
  fault_reports :: int
  uptime_percentage :: real

definition us_per_day :: int where
  "us_per_day = 86400000000"

definition days :: "int \<Rightarrow> int" where
  "days delta = delta div us_per_day"

section \<open>High-risk scooters (lines 386 to 399)\<close>

text \<open>
  The four conditions, as the script writes them in the row filter, again when it adds
  the reasons, and again when it counts them for the alert text. \<open>battery_threshold\<close>
  and \<open>service_days\<close> are the integer values of the two sidebar sliders; \<open>now\<close> is the
  value of one \<^verbatim>\<open>datetime.datetime.now()\<close>.
\<close>

definition low_battery :: "int \<Rightarrow> scooter \<Rightarrow> bool" where
  "low_battery battery_threshold s = (battery_level s < of_int battery_threshold)"

definition multiple_faults :: "scooter \<Rightarrow> bool" where
  "multiple_faults s = (fault_reports s \<ge> 3)"

definition low_uptime :: "scooter \<Rightarrow> bool" where
  "low_uptime s = (uptime_percentage s < 85)"

definition service_due :: "int \<Rightarrow> timestamp \<Rightarrow> scooter \<Rightarrow> bool" where
  "service_due service_days now s = (days (now - last_service s) > service_days)"

definition high_risk :: "scooter list \<Rightarrow> int \<Rightarrow> int \<Rightarrow> timestamp \<Rightarrow> scooter list" where
  "high_risk filtered_scooters battery_threshold service_days now =
     filter (\<lambda>s. low_battery battery_threshold s \<or> multiple_faults s \<or> low_uptime s \<or>
                 service_due service_days now s)
       filtered_scooters"

text \<open>
  The frame with its added \<^verbatim>\<open>risk_reason\<close> column is a list of pairs.
  \<^verbatim>\<open>frame.loc[cond, 'risk_reason'] += label\<close> is one pass over all rows.
\<close>

type_synonym row = "scooter \<times> string"

definition loc_append :: "(scooter \<Rightarrow> bool) \<Rightarrow> string \<Rightarrow> row list \<Rightarrow> row list" where
  "loc_append cond label rows =
     map (\<lambda>(s, reason). if cond s then (s, reason @ label) else (s, reason)) rows"

definition risk_reason :: "scooter list \<Rightarrow> int \<Rightarrow> int \<Rightarrow> timestamp \<Rightarrow> row list" where
  "risk_reason hr battery_threshold service_days now =
     loc_append (service_due service_days now) ''Service Due; ''
       (loc_append low_uptime ''Low Uptime; ''
         (loc_append multiple_faults ''Multiple Faults; ''
           (loc_append (low_battery battery_threshold) ''Low Battery; ''
             (map (\<lambda>s. (s, '''')) hr))))"

text \<open>
  The script reads the clock once for the filter (line 390) and once more for the
  reasons (line 399); the two reads are the parameters \<open>now_filter\<close> and \<open>now_reason\<close>.
  The reasons are added only to a frame that has a row.
\<close>

definition high_risk_tagged ::
  "scooter list \<Rightarrow> int \<Rightarrow> int \<Rightarrow> timestamp \<Rightarrow> timestamp \<Rightarrow> row list" where
  "high_risk_tagged filtered_scooters battery_threshold service_days now_filter now_reason =
     (let hr = high_risk filtered_scooters battery_threshold service_days now_filter
      in if length hr > 0 then risk_reason hr battery_threshold service_days now_reason
         else [])"

section \<open>Fleet metrics (lines 209 to 213, 241, 250 and 440)\<close>

text \<open>
  \<^verbatim>\<open>len\<close> of a frame is the number of its rows. The utilization is guarded against the
  empty frame with a conditional expression. \<^verbatim>\<open>Series.mean()\<close> has no such guard in the
  script: on a column without rows it raises nothing and gives the float \<^verbatim>\<open>nan\<close>, which
  is the value \<open>NaN\<close> here.
\<close>

datatype number = NaN | Finite real

definition total_fleet :: "scooter list \<Rightarrow> nat" where
  "total_fleet filtered_scooters = length filtered_scooters"

definition active_scooters :: "scooter list \<Rightarrow> nat" where
  "active_scooters filtered_scooters = length (filter (\<lambda>s. status s = OnTrip) filtered_scooters)"

definition available_scooters :: "scooter list \<Rightarrow> nat" where
  "available_scooters filtered_scooters =
     length (filter (\<lambda>s. status s = Available) filtered_scooters)"

definition maintenance_scooters :: "scooter list \<Rightarrow> nat" where
  "maintenance_scooters filtered_scooters =
     length (filter (\<lambda>s. status s = Maintenance) filtered_scooters)"

definition utilization_rate :: "scooter list \<Rightarrow> real" where
  "utilization_rate filtered_scooters =
     (if total_fleet filtered_scooters > 0
      then (real (active_scooters filtered_scooters) / real (total_fleet filtered_scooters)) * 100
      else 0)"

definition mean :: "real list \<Rightarrow> number" where
  "mean column = (if column = [] then NaN else Finite (sum_list column / real (length column)))"

definition avg_revenue :: "scooter list \<Rightarrow> number" where
  "avg_revenue filtered_scooters = mean (map revenue_today filtered_scooters)"

definition avg_uptime :: "scooter list \<Rightarrow> number" where
  "avg_uptime filtered_scooters = mean (map uptime_percentage filtered_scooters)"

definition alerts_count :: "scooter list \<Rightarrow> int \<Rightarrow> nat" where
  "alerts_count filtered_scooters battery_threshold =
     length (filter (\<lambda>s. low_battery battery_threshold s \<or> status s = Alert) filtered_scooters)"

text \<open>
  The two threshold sliders (lines 185 to 197): the least and the greatest value the
  widget lets the operator choose, and the value it starts with.
\<close>

definition battery_threshold_min :: int where "battery_threshold_min = 10"
definition battery_threshold_max :: int where "battery_threshold_max = 50"
definition battery_threshold_value :: int where "battery_threshold_value = 20"
definition service_days_min :: int where "service_days_min = 30"
definition service_days_max :: int where "service_days_max = 90"
definition service_days_value :: int where "service_days_value = 60"

section \<open>The two message texts (lines 503 to 520 and 576 to 587)\<close>

text \<open>
  A formatted string is the list of its lines, a line the list of its pieces: literal
  text, or a formatted value (\<^verbatim>\<open>{n}\<close> of a count, \<^verbatim>\<open>{x:.1f}\<close> of a float,
  \<^verbatim>\<open>strftime("%H:%M %d/%m/%Y")\<close> of a time, a string put in as it is). The pictographs
  and bullet signs of the script's literals are left out of the literal text.
\<close>

datatype piece = Lit string | Num_d nat | Num_1f real | Time_HM_DMY timestamp | Str string

type_synonym message = "piece list list"

definition alert_summary ::
  "row list \<Rightarrow> int \<Rightarrow> int \<Rightarrow> timestamp \<Rightarrow> timestamp \<Rightarrow> message" where
  "alert_summary hr battery_threshold service_days now_count now_time =
     [[],
      [Lit ''BOUNCE FLEET ALERT''],
      [],
      [Lit ''High-Risk Scooters: '', Num_d (length hr)],
      [],
      [Lit ''Breakdown:''],
      [Lit ''Low Battery: '',
         Num_d (length (filter (\<lambda>(s, reason). low_battery battery_threshold s) hr))],
      [Lit ''High Fault Reports: '',
         Num_d (length (filter (\<lambda>(s, reason). multiple_faults s) hr))],
      [Lit ''Low Uptime: '',
         Num_d (length (filter (\<lambda>(s, reason). low_uptime s) hr))],
      [Lit ''Service Overdue: '',
         Num_d (length (filter (\<lambda>(s, reason). service_due service_days now_count s) hr))],
      [],
      [Lit ''Actions Required:''],
      [Lit ''1. Dispatch battery swap crews''],
      [Lit ''2. Schedule maintenance''],
      [Lit ''3. Review hub distribution''],
      [],
      [Lit ''Time: '', Time_HM_DMY now_time],
      [Lit ''        '']]"

definition all_clear_msg :: "nat \<Rightarrow> real \<Rightarrow> nat \<Rightarrow> timestamp \<Rightarrow> message" where
  "all_clear_msg fleet_total fleet_utilization fleet_active now_time =
     [[],
      [Lit ''BOUNCE FLEET STATUS: ALL CLEAR''],
      [],
      [Lit ''Fleet Performance:''],
      [Lit ''Total Scooters: '', Num_d fleet_total],
      [Lit ''Utilization: '', Num_1f fleet_utilization, Lit ''%''],
      [Lit ''Active Rides: '', Num_d fleet_active],
      [Lit ''No high-risk alerts''],
      [],
      [Lit ''System Status: OPERATIONAL''],
      [Lit ''Time: '', Time_HM_DMY now_time],
      [Lit ''                '']]"

section \<open>Sending (lines 501 to 600)\<close>

text \<open>
  What the script reads when the operator presses the alert button: whether the
  \<^verbatim>\<open>twilio\<close> package was imported, the session state (\<open>twilio_configured\<close> is \<open>None\<close>
  when the attribute was never set), the credentials, the two inner buttons, and the
  transport. A call of the transport returns or raises an exception \<open>e\<close>, of which
  the script keeps \<^verbatim>\<open>str(e)\<close>; \<^verbatim>\<open>messages.create\<close> acts on the world outside, of type \<open>'w\<close>.
\<close>

datatype attempt = Returned | Raised string

record creds =
  account_sid :: string
  auth_token :: string
  phone_number :: string
  manager_phones :: "string list"

record sms =
  body :: message
  from_number :: string
  to_number :: string

record 'w app =
  TWILIO_AVAILABLE :: bool
  twilio_configured :: "bool option"
  twilio_creds :: creds
  Client :: "string \<Rightarrow> string \<Rightarrow> attempt"
  messages_create :: "'w \<Rightarrow> sms \<Rightarrow> attempt \<times> 'w"
  send_sms_button :: bool
  all_clear_button :: bool

text \<open>
  What a run leaves behind: the messages written to the sidebar, in order, the calls of
  \<^verbatim>\<open>messages.create\<close>, in order, and the world. The loop of the risk alert also has its
  two counters.
\<close>

datatype ui =
    Success "piece list"
  | Error "piece list"
  | Warning "piece list"
  | Info "piece list"
  | Text_area string message

record 'w page =
  sidebar :: "ui list"
  calls :: "sms list"
  world :: 'w

record 'w counting = "'w page" +
  sent_count :: nat
  failed_count :: nat

definition last4 :: "string \<Rightarrow> string" where
  "last4 phone = drop (length phone - 4) phone"

text \<open>
  The loop of lines 537 to 549: an empty string is false as a condition and is passed
  over; the inner \<^verbatim>\<open>try\<close> catches what one \<^verbatim>\<open>messages.create\<close> raises. Writing a
  line to the sidebar is taken not to raise. \<^verbatim>\<open>phone[-4:]\<close> is the last four characters
  of the number, or all of it when it is shorter.
\<close>

fun send_sms_loop ::
  "('w \<Rightarrow> sms \<Rightarrow> attempt \<times> 'w) \<Rightarrow> message \<Rightarrow> string \<Rightarrow> string list \<Rightarrow> 'w counting \<Rightarrow> 'w counting"
where
  "send_sms_loop create msg sender [] st = st"
| "send_sms_loop create msg sender (phone # phones) st =
     (if phone \<noteq> [] then
        (let m = \<lparr>body = msg, from_number = sender, to_number = phone\<rparr> in
         case create (world st) m of
           (Returned, w) \<Rightarrow>
             send_sms_loop create msg sender phones
               (st\<lparr>sidebar := sidebar st @ [Success [Lit ''SMS sent to '', Str (last4 phone)]],
                   calls := calls st @ [m], world := w,
                   sent_count := sent_count st + 1\<rparr>)
         | (Raised e, w) \<Rightarrow>
             send_sms_loop create msg sender phones
               (st\<lparr>sidebar := sidebar st @
                     [Error [Lit ''Failed to send to '', Str (last4 phone), Lit '': '', Str e]],
                   calls := calls st @ [m], world := w,
                   failed_count := failed_count st + 1\<rparr>))
      else send_sms_loop create msg sender phones st)"

text \<open>
  The \<^verbatim>\<open>try\<close> block of lines 529 to 559: the client is made, the counters start at
  zero, the loop runs, and the two summary lines are written when their counter is not
  zero. The outer handler is reached only when making the client raises.
\<close>

definition send_sms_alerts :: "'w app \<Rightarrow> message \<Rightarrow> 'w page \<Rightarrow> 'w counting option \<times> 'w page" where
  "send_sms_alerts a msg p =
     (let creds = twilio_creds a in
      case Client a (account_sid creds) (auth_token creds) of
        Raised e \<Rightarrow>
          (None,
           p\<lparr>sidebar := sidebar p @
                [Error [Lit ''Twilio Error: '', Str e],
                 Info [Lit ''Check your Twilio credentials and phone numbers'']]\<rparr>)
      | Returned \<Rightarrow>
          (let st = send_sms_loop (messages_create a) msg (phone_number creds) (manager_phones creds)
                      \<lparr>sidebar = sidebar p, calls = calls p, world = world p,
                       sent_count = 0, failed_count = 0\<rparr>;
               lines = sidebar st
                 @ (if sent_count st > 0
                    then [Success [Lit ''Alert sent to '', Num_d (sent_count st), Lit '' manager(s)!'']]
                    else [])
                 @ (if failed_count st > 0
                    then [Warning [Num_d (failed_count st), Lit '' message(s) failed to send'']]
                    else [])
           in (Some st, \<lparr>sidebar = lines, calls = calls st, world = world st\<rparr>)))"

text \<open>
  The loop of lines 591 to 597 has no \<^verbatim>\<open>try\<close> of its own: what \<^verbatim>\<open>messages.create\<close>
  raises leaves the loop. The result is the exception that left the loop, if any.
\<close>

fun all_clear_loop ::
  "('w \<Rightarrow> sms \<Rightarrow> attempt \<times> 'w) \<Rightarrow> message \<Rightarrow> string \<Rightarrow> string list \<Rightarrow> 'w page \<Rightarrow> string option \<times> 'w page"
where
  "all_clear_loop create msg sender [] p = (None, p)"
| "all_clear_loop create msg sender (phone # phones) p =
     (if phone \<noteq> [] then
        (let m = \<lparr>body = msg, from_number = sender, to_number = phone\<rparr> in
         case create (world p) m of
           (Returned, w) \<Rightarrow>
             all_clear_loop create msg sender phones (p\<lparr>calls := calls p @ [m], world := w\<rparr>)
         | (Raised e, w) \<Rightarrow> (Some e, p\<lparr>calls := calls p @ [m], world := w\<rparr>))
      else all_clear_loop create msg sender phones p)"

definition send_all_clear :: "'w app \<Rightarrow> message \<Rightarrow> 'w page \<Rightarrow> 'w page" where
  "send_all_clear a msg p =
     (let creds = twilio_creds a in
      case Client a (account_sid creds) (auth_token creds) of
        Raised e \<Rightarrow> p\<lparr>sidebar := sidebar p @ [Error [Lit ''Error: '', Str e]]\<rparr>
      | Returned \<Rightarrow>
          (case all_clear_loop (messages_create a) msg (phone_number creds) (manager_phones creds) p of
             (None, p') \<Rightarrow>
               p'\<lparr>sidebar := sidebar p' @ [Success [Lit ''All-clear notification sent!'']]\<rparr>
           | (Some e, p') \<Rightarrow> p'\<lparr>sidebar := sidebar p' @ [Error [Lit ''Error: '', Str e]]\<rparr>))"

text \<open>
  The guard of lines 525 and 571, and the body of the alert button (lines 501 to 600).
  The name \<^verbatim>\<open>high_risk\<close> is always bound when line 502 runs, so the test there is the
  test for a row. The values of the two inner buttons are inputs. \<open>hr\<close> is the frame
  of high-risk scooters with its reasons; \<open>fleet_total\<close>, \<open>fleet_utilization\<close> and
  \<open>fleet_active\<close> are the values of \<^verbatim>\<open>total_fleet\<close>, \<^verbatim>\<open>utilization_rate\<close> and
  \<^verbatim>\<open>active_scooters\<close> computed above; \<open>now_count\<close> and \<open>now_time\<close> are the clock
  reads of lines 512 and 519 (or 586).
\<close>

definition configured :: "'w app \<Rightarrow> bool" where
  "configured a = (TWILIO_AVAILABLE a \<and> twilio_configured a = Some True)"

definition send_alerts ::
  "'w app \<Rightarrow> row list \<Rightarrow> int \<Rightarrow> int \<Rightarrow> nat \<Rightarrow> real \<Rightarrow> nat \<Rightarrow> timestamp \<Rightarrow> timestamp \<Rightarrow> 'w page \<Rightarrow> 'w page"
where
  "send_alerts a hr battery_threshold service_days fleet_total fleet_utilization fleet_active
     now_count now_time p =
     (if length hr > 0 then
        (let summary = alert_summary hr battery_threshold service_days now_count now_time;
             p1 = p\<lparr>sidebar := sidebar p @ [Text_area ''Alert Message Preview:'' summary]\<rparr>
         in if configured a then
              (if send_sms_button a then snd (send_sms_alerts a summary p1) else p1)
            else if TWILIO_AVAILABLE a then
              p1\<lparr>sidebar := sidebar p1 @
                   [Warning [Lit ''Configure Twilio credentials above to send SMS alerts'']]\<rparr>
            else
              p1\<lparr>sidebar := sidebar p1 @
                   [Info [Lit ''Alert summary generated! Install Twilio package for SMS functionality.'']]\<rparr>)
      else
        (let p1 = p\<lparr>sidebar := sidebar p @
                      [Info [Lit ''No alerts to send - all systems operational!'']]\<rparr>
         in if configured a then
              (if all_clear_button a
               then send_all_clear a (all_clear_msg fleet_total fleet_utilization fleet_active now_time) p1
               else p1)
            else p1))"

section \<open>Delivery as the specification words it\<close>

text \<open>
  The specification asks for one delivery attempt per recipient that is not blank, each
  on its own, in the order of the input, with the outcome of each attempt recorded.
  \<open>deliveries\<close> is that: it attempts every recipient of the list it is given, one after
  the other, whatever the earlier attempts did, and pairs each with what the transport
  answered. \<open>outcome_line\<close> is the sidebar line the script writes for one outcome
  (lines 546 and 549). These two are compared with the loops of the script below.
\<close>

fun deliveries ::
  "('w \<Rightarrow> sms \<Rightarrow> attempt \<times> 'w) \<Rightarrow> message \<Rightarrow> string \<Rightarrow> string list \<Rightarrow> 'w \<Rightarrow> (string \<times> attempt) list"
where
  "deliveries create msg sender [] w = []"
| "deliveries create msg sender (phone # phones) w =
     (case create w \<lparr>body = msg, from_number = sender, to_number = phone\<rparr> of
        (r, w') \<Rightarrow> (phone, r) # deliveries create msg sender phones w')"

fun outcome_line :: "string \<times> attempt \<Rightarrow> ui" where
  "outcome_line (phone, Returned) = Success [Lit ''SMS sent to '', Str (last4 phone)]"
| "outcome_line (phone, Raised e) =
     Error [Lit ''Failed to send to '', Str (last4 phone), Lit '': '', Str e]"

section \<open>Sample inputs\<close>

text \<open>
  Concrete inputs for the instances below: a transport that counts its calls in the
  world and fails for the recipient \<^verbatim>\<open>+1000\<close> only, a configured application with the
  two recipients \<^verbatim>\<open>+1000\<close> and \<^verbatim>\<open>+1001\<close> and both inner buttons pressed, an empty page,
  and a healthy scooter serviced at instant \<open>0\<close>.
\<close>

definition sample_create :: "nat \<Rightarrow> sms \<Rightarrow> attempt \<times> nat" where
  "sample_create w m =
     (if to_number m = ''+1000'' then Raised ''unreachable'' else Returned, w + 1)"

definition sample_app :: "nat app" where
  "sample_app =
     \<lparr>TWILIO_AVAILABLE = True, twilio_configured = Some True,
      twilio_creds = \<lparr>account_sid = ''AC1'', auth_token = ''secret'', phone_number = ''+1999'',
                      manager_phones = [''+1000'', ''+1001'']\<rparr>,
      Client = (\<lambda>sid token. Returned), messages_create = sample_create,
      send_sms_button = True, all_clear_button = True\<rparr>"

definition sample_page :: "nat page" where
  "sample_page = \<lparr>sidebar = [], calls = [], world = 0\<rparr>"

definition sample_unit :: scooter where
  "sample_unit =
     \<lparr>scooter_id = ''BNC0001'', hub = ''MG Road Hub'', status = Available, battery_level = 80,
      lat = 0, lon = 0, last_service = 0, total_trips = 100, revenue_today = 10,
      fault_reports = 0, uptime_percentage = 95\<rparr>"

section \<open>Properties of the risk evaluation\<close>

lemma loc_append_Nil: "loc_append c label [] = []"
  by (simp add: loc_append_def)

lemma loc_append_Cons:
  "loc_append c label ((s, r) # rows) =
     (s, if c s then r @ label else r) # loc_append c label rows"
  by (simp add: loc_append_def)

lemma loc_append_map:
  "loc_append c label (map (\<lambda>s. (s, f s)) xs) =
     map (\<lambda>s. (s, if c s then f s @ label else f s)) xs"
  by (induction xs) (simp_all add: loc_append_Nil loc_append_Cons)

lemma risk_reason_map:
  "risk_reason hr bt sd now =
     map (\<lambda>s. (s, (if low_battery bt s then ''Low Battery; '' else '''') @
                   (if multiple_faults s then ''Multiple Faults; '' else '''') @
                   (if low_uptime s then ''Low Uptime; '' else '''') @
                   (if service_due sd now s then ''Service Due; '' else ''''))) hr"
  unfolding risk_reason_def loc_append_map
  by (rule map_cong) auto

lemma high_risk_tagged_map:
  "high_risk_tagged xs bt sd nf nr = risk_reason (high_risk xs bt sd nf) bt sd nr"
  by (simp add: high_risk_tagged_def Let_def risk_reason_map)

text \<open>
  The two scenarios of the specification and a healthy unit, evaluated 40 days after
  instant \<open>0\<close> with a battery threshold of 20 and a service threshold of 60 days: the
  first unit (battery 15, one fault, uptime 92, serviced 40 days ago) has the battery
  label only; the second (battery 50, four faults, uptime 80, serviced 70 days ago) has
  the three other labels; the healthy unit is left out.
\<close>

lemma high_risk_tagged_scenarios:
  "high_risk_tagged
     [sample_unit\<lparr>battery_level := 15, fault_reports := 1, uptime_percentage := 92\<rparr>,
      sample_unit\<lparr>battery_level := 50, fault_reports := 4, uptime_percentage := 80,
                   last_service := - 30 * 86400000000\<rparr>,
      sample_unit]
     20 60 (40 * 86400000000) (40 * 86400000000) =
   [(sample_unit\<lparr>battery_level := 15, fault_reports := 1, uptime_percentage := 92\<rparr>,
     ''Low Battery; ''),
    (sample_unit\<lparr>battery_level := 50, fault_reports := 4, uptime_percentage := 80,
                  last_service := - 30 * 86400000000\<rparr>,
     ''Multiple Faults; Low Uptime; Service Due; '')]"
  by (simp add: high_risk_tagged_map risk_reason_map high_risk_def low_battery_def
      multiple_faults_def low_uptime_def service_due_def days_def us_per_day_def
      sample_unit_def)

text \<open>
  Claim C1. With one instant \<open>now\<close> for both clock reads, the evaluation gives exactly
  the units that meet at least one of the four conditions (battery level below the
  threshold, three fault reports or more, uptime below 85, whole days since the last
  service above the service threshold), in the order of the input, each with the
  labels of all the conditions it meets, in the fixed order of the four conditions; a
  unit that meets none is not in the result.
\<close>

theorem high_risk_tagged_exact:
  "high_risk_tagged units battery_threshold service_days now now =
     map (\<lambda>u. (u,
            (if battery_level u < of_int battery_threshold then ''Low Battery; '' else '''') @
            (if fault_reports u \<ge> 3 then ''Multiple Faults; '' else '''') @
            (if uptime_percentage u < 85 then ''Low Uptime; '' else '''') @
            (if (now - last_service u) div 86400000000 > service_days
             then ''Service Due; '' else '''')))
       (filter (\<lambda>u. battery_level u < of_int battery_threshold \<or> fault_reports u \<ge> 3 \<or>
                    uptime_percentage u < 85 \<or>
                    (now - last_service u) div 86400000000 > service_days)
          units)"
  unfolding high_risk_tagged_map risk_reason_map high_risk_def
  by (simp add: low_battery_def multiple_faults_def low_uptime_def service_due_def days_def
      us_per_day_def)

text \<open>
  Claim C8. The rows the evaluation gives for a unit depend on that unit, the two
  thresholds and the clock reads only: whatever units stand before and after it in the
  input, the result is the result for the units before, then the result for the unit
  alone, then the result for the units after. The evaluation is a function of its
  arguments, so two calls with the same arguments agree.
\<close>

theorem high_risk_tagged_per_unit:
  "high_risk_tagged (xs @ u # ys) battery_threshold service_days now_filter now_reason =
     high_risk_tagged xs battery_threshold service_days now_filter now_reason @
     high_risk_tagged [u] battery_threshold service_days now_filter now_reason @
     high_risk_tagged ys battery_threshold service_days now_filter now_reason"
  unfolding high_risk_tagged_map risk_reason_map high_risk_def
  by simp

section \<open>Properties of the fleet metrics\<close>

text \<open>
  Claim C3. On the empty fleet the counts are zero and the utilization is zero, by its
  guard, with no division. The two means are not zero: the mean of a column without
  rows is \<open>NaN\<close>, the undefined float, since lines 241 and 440 have no guard.
\<close>

theorem aggregate_empty:
  "total_fleet [] = 0 \<and> active_scooters [] = 0 \<and> available_scooters [] = 0 \<and>
   maintenance_scooters [] = 0 \<and> utilization_rate [] = 0 \<and>
   avg_revenue [] = NaN \<and> avg_uptime [] = NaN"
  by (simp add: total_fleet_def active_scooters_def available_scooters_def
      maintenance_scooters_def utilization_rate_def avg_revenue_def avg_uptime_def mean_def)

section \<open>Properties of the sending loops\<close>


lemma calls_send_sms_loop:
  "calls (send_sms_loop create msg sender phones st) =
     calls st @ map (\<lambda>phone. \<lparr>body = msg, from_number = sender, to_number = phone\<rparr>)
                  (filter (\<lambda>phone. phone \<noteq> []) phones)"
  by (induction phones arbitrary: st) (auto simp: Let_def split: prod.splits attempt.splits)

lemma counters_send_sms_loop:
  "sent_count (send_sms_loop create msg sender phones st) +
   failed_count (send_sms_loop create msg sender phones st) =
     sent_count st + failed_count st + length (filter (\<lambda>phone. phone \<noteq> []) phones)"
  by (induction phones arbitrary: st) (auto simp: Let_def split: prod.splits attempt.splits)

lemma sidebar_send_sms_loop:
  "sidebar (send_sms_loop create msg sender phones st) =
     sidebar st @ map outcome_line
       (deliveries create msg sender (filter (\<lambda>phone. phone \<noteq> []) phones) (world st))"
  by (induction phones arbitrary: st) (auto simp: Let_def split: prod.splits attempt.splits)

lemma sent_count_send_sms_loop:
  "sent_count (send_sms_loop create msg sender phones st) =
     sent_count st + length (filter (\<lambda>(phone, r). r = Returned)
       (deliveries create msg sender (filter (\<lambda>phone. phone \<noteq> []) phones) (world st)))"
  by (induction phones arbitrary: st) (auto simp: Let_def split: prod.splits attempt.splits)

lemma failed_count_send_sms_loop:
  "failed_count (send_sms_loop create msg sender phones st) =
     failed_count st + length (filter (\<lambda>(phone, r). r \<noteq> Returned)
       (deliveries create msg sender (filter (\<lambda>phone. phone \<noteq> []) phones) (world st)))"
  by (induction phones arbitrary: st) (auto simp: Let_def split: prod.splits attempt.splits)

lemma map_fst_deliveries: "map fst (deliveries create msg sender phones w) = phones"
  by (induction phones arbitrary: w) (auto split: prod.splits)

lemma calls_all_clear_loop:
  "m \<in> set (calls (snd (all_clear_loop create msg sender phones p))) \<Longrightarrow>
     m \<in> set (calls p) \<or> body m = msg"
proof (induction phones arbitrary: p)
  case Nil
  then show ?case by simp
next
  case (Cons phone phones)
  let ?m = "\<lparr>body = msg, from_number = sender, to_number = phone\<rparr>"
  show ?case
  proof (cases "phone = []")
    case True
    with Cons show ?thesis by simp
  next
    case False
    obtain r w where cr: "create (world p) ?m = (r, w)"
      by (cases "create (world p) ?m")
    show ?thesis
    proof (cases r)
      case Returned
      with Cons.prems False cr
      have "m \<in> set (calls (snd (all_clear_loop create msg sender phones
                (p\<lparr>calls := calls p @ [?m], world := w\<rparr>))))"
        by (simp add: Let_def)
      from Cons.IH[OF this] show ?thesis by auto
    next
      case (Raised e)
      with Cons.prems False cr show ?thesis by (auto simp: Let_def)
    qed
  qed
qed

lemma all_clear_loop_keeps_calls:
  "\<exists>more. calls (snd (all_clear_loop create msg sender phones p)) = calls p @ more"
proof (induction phones arbitrary: p)
  case Nil
  then show ?case by simp
next
  case (Cons phone phones)
  let ?m = "\<lparr>body = msg, from_number = sender, to_number = phone\<rparr>"
  show ?case
  proof (cases "phone = []")
    case True
    with Cons.IH[of p] show ?thesis by simp
  next
    case False
    obtain r w where cr: "create (world p) ?m = (r, w)"
      by (cases "create (world p) ?m")
    show ?thesis
    proof (cases r)
      case Returned
      from Cons.IH[of "p\<lparr>calls := calls p @ [?m], world := w\<rparr>"]
      show ?thesis using False cr Returned by (auto simp: Let_def)
    next
      case (Raised e)
      with False cr show ?thesis by (simp add: Let_def)
    qed
  qed
qed

lemma all_clear_loop_first_call:
  assumes "phone \<noteq> []"
  shows "calls (snd (all_clear_loop create msg sender (phone # phones) p)) ! length (calls p) =
     \<lparr>body = msg, from_number = sender, to_number = phone\<rparr>"
proof -
  let ?m = "\<lparr>body = msg, from_number = sender, to_number = phone\<rparr>"
  obtain r w where cr: "create (world p) ?m = (r, w)"
    by (cases "create (world p) ?m")
  show ?thesis
  proof (cases r)
    case Returned
    obtain more where "calls (snd (all_clear_loop create msg sender phones
        (p\<lparr>calls := calls p @ [?m], world := w\<rparr>))) = (calls p @ [?m]) @ more"
      using all_clear_loop_keeps_calls[of create msg sender phones
          "p\<lparr>calls := calls p @ [?m], world := w\<rparr>"]
      by auto
    with assms cr Returned show ?thesis by (simp add: Let_def nth_append)
  next
    case (Raised e)
    with assms cr show ?thesis by (simp add: Let_def nth_append)
  qed
qed

lemma calls_send_all_clear:
  "Client a (account_sid (twilio_creds a)) (auth_token (twilio_creds a)) = Returned \<Longrightarrow>
   calls (send_all_clear a msg p) =
     calls (snd (all_clear_loop (messages_create a) msg (phone_number (twilio_creds a))
                   (manager_phones (twilio_creds a)) p))"
  by (simp add: send_all_clear_def Let_def split: prod.splits option.splits)

lemma sidebar_send_sms_alerts:
  "\<exists>more. sidebar (snd (send_sms_alerts a msg p)) = sidebar p @ more"
  by (cases "Client a (account_sid (twilio_creds a)) (auth_token (twilio_creds a))")
     (simp_all add: send_sms_alerts_def Let_def sidebar_send_sms_loop)

lemma all_clear_loop_all_returned:
  "\<forall>(phone, r) \<in> set (deliveries create msg sender (filter (\<lambda>phone. phone \<noteq> []) phones) (world p)).
      r = Returned \<Longrightarrow>
   fst (all_clear_loop create msg sender phones p) = None \<and>
   calls (snd (all_clear_loop create msg sender phones p)) =
     calls p @ map (\<lambda>phone. \<lparr>body = msg, from_number = sender, to_number = phone\<rparr>)
                 (filter (\<lambda>phone. phone \<noteq> []) phones) \<and>
   sidebar (snd (all_clear_loop create msg sender phones p)) = sidebar p"
proof (induction phones arbitrary: p)
  case Nil
  then show ?case by simp
next
  case (Cons phone phones)
  let ?m = "\<lparr>body = msg, from_number = sender, to_number = phone\<rparr>"
  show ?case
  proof (cases "phone = []")
    case True
    with Cons.prems have "\<forall>(phone, r) \<in> set (deliveries create msg sender
          (filter (\<lambda>phone. phone \<noteq> []) phones) (world p)). r = Returned"
      by simp
    from Cons.IH[OF this] True show ?thesis by simp
  next
    case False
    obtain r w where cr: "create (world p) ?m = (r, w)"
      by (cases "create (world p) ?m")
    with Cons.prems False have r: "r = Returned"
      and rest: "\<forall>(phone, r) \<in> set (deliveries create msg sender
          (filter (\<lambda>phone. phone \<noteq> []) phones) w). r = Returned"
      by auto
    let ?p = "p\<lparr>calls := calls p @ [?m], world := w\<rparr>"
    from rest have "\<forall>(phone, r) \<in> set (deliveries create msg sender
          (filter (\<lambda>phone. phone \<noteq> []) phones) (world ?p)). r = Returned"
      by simp
    from Cons.IH[OF this] have
      "fst (all_clear_loop create msg sender phones ?p) = None"
      "calls (snd (all_clear_loop create msg sender phones ?p)) =
         (calls p @ [?m]) @ map (\<lambda>phone. \<lparr>body = msg, from_number = sender, to_number = phone\<rparr>)
                 (filter (\<lambda>phone. phone \<noteq> []) phones)"
      "sidebar (snd (all_clear_loop create msg sender phones ?p)) = sidebar p"
      by simp_all
    moreover have "all_clear_loop create msg sender (phone # phones) p =
        all_clear_loop create msg sender phones ?p"
      using False cr r by (simp add: Let_def)
    ultimately show ?thesis using False by simp
  qed
qed

lemma send_sms_alerts_no_recipient:
  assumes "Client a (account_sid (twilio_creds a)) (auth_token (twilio_creds a)) = Returned"
    and "manager_phones (twilio_creds a) = []"
  shows "send_sms_alerts a msg p =
     (Some \<lparr>sidebar = sidebar p, calls = calls p, world = world p,
            sent_count = 0, failed_count = 0\<rparr>, p)"
  using assms by (simp add: send_sms_alerts_def Let_def)

text \<open>
  Claim C2. The loop of the risk alert goes on after a failed attempt, the loop of the
  all-clear message does not. With the recipients \<^verbatim>\<open>+1000\<close> and \<^verbatim>\<open>+1001\<close> and a
  transport that fails for \<^verbatim>\<open>+1000\<close> only, the risk alert attempts both, writes both
  outcomes and ends with one sent and one failed; the all-clear message attempts
  \<^verbatim>\<open>+1000\<close>, never attempts \<^verbatim>\<open>+1001\<close>, and writes one error line.
\<close>

theorem all_clear_stops_at_first_failure:
  "send_sms_alerts sample_app msg sample_page =
     (Some \<lparr>sidebar = [Error [Lit ''Failed to send to '', Str ''1000'', Lit '': '',
                              Str ''unreachable''],
                       Success [Lit ''SMS sent to '', Str ''1001'']],
            calls = [\<lparr>body = msg, from_number = ''+1999'', to_number = ''+1000''\<rparr>,
                     \<lparr>body = msg, from_number = ''+1999'', to_number = ''+1001''\<rparr>],
            world = 2, sent_count = 1, failed_count = 1\<rparr>,
      \<lparr>sidebar = [Error [Lit ''Failed to send to '', Str ''1000'', Lit '': '',
                        Str ''unreachable''],
                 Success [Lit ''SMS sent to '', Str ''1001''],
                 Success [Lit ''Alert sent to '', Num_d 1, Lit '' manager(s)!''],
                 Warning [Num_d 1, Lit '' message(s) failed to send'']],
       calls = [\<lparr>body = msg, from_number = ''+1999'', to_number = ''+1000''\<rparr>,
                \<lparr>body = msg, from_number = ''+1999'', to_number = ''+1001''\<rparr>],
       world = 2\<rparr>) \<and>
   send_all_clear sample_app msg sample_page =
     \<lparr>sidebar = [Error [Lit ''Error: '', Str ''unreachable'']],
      calls = [\<lparr>body = msg, from_number = ''+1999'', to_number = ''+1000''\<rparr>],
      world = 1\<rparr>"
  by (simp add: send_sms_alerts_def send_all_clear_def sample_app_def sample_page_def
      sample_create_def last4_def Let_def)

text \<open>
  Claim C4, as the script has it. Whenever the client can be made, the \<^verbatim>\<open>try\<close> block
  of the risk alert (lines 529 to 559), for every recipient list, calls the transport
  exactly once for each entry that is not the empty string, in the order of the list,
  and for no other entry: the empty string is the only entry the test \<^verbatim>\<open>if phone\<close>
  passes over, and a passed-over entry adds to no counter and writes no line. The
  outcome lines are those of the deliveries to exactly these recipients, in the same
  order, followed by the summary lines; \<open>sent_count\<close> is the number of deliveries that
  returned, \<open>failed_count\<close> the number that raised, and together they are the number of
  non-empty entries. For \<^verbatim>\<open>["", "+1000", "", "+1001"]\<close> there are two calls. For the
  empty list the page is left as it was, with both counters zero and no error line.
  The all-clear block (lines 589 to 600) makes the same calls when no delivery raises.
\<close>

theorem send_sms_alerts_once_per_recipient:
  assumes ok: "Client a (account_sid (twilio_creds a)) (auth_token (twilio_creds a)) = Returned"
  shows
  "(let creds = twilio_creds a;
        recipients = filter (\<lambda>phone. phone \<noteq> []) (manager_phones creds);
        outcomes = deliveries (messages_create a) msg (phone_number creds) recipients (world p);
        sent = length (filter (\<lambda>(phone, r). r = Returned) outcomes);
        failed = length (filter (\<lambda>(phone, r). r \<noteq> Returned) outcomes)
    in map fst outcomes = recipients \<and>
       calls (snd (send_sms_alerts a msg p)) =
         calls p @ map (\<lambda>phone. \<lparr>body = msg, from_number = phone_number creds,
                                  to_number = phone\<rparr>) recipients \<and>
       sidebar (snd (send_sms_alerts a msg p)) =
         sidebar p @ map outcome_line outcomes
           @ (if sent > 0
              then [Success [Lit ''Alert sent to '', Num_d sent, Lit '' manager(s)!'']] else [])
           @ (if failed > 0
              then [Warning [Num_d failed, Lit '' message(s) failed to send'']] else []) \<and>
       map_option sent_count (fst (send_sms_alerts a msg p)) = Some sent \<and>
       map_option failed_count (fst (send_sms_alerts a msg p)) = Some failed \<and>
       sent + failed = length recipients \<and>
       (manager_phones creds = ['''', ''+1000'', '''', ''+1001''] \<longrightarrow>
          length (calls (snd (send_sms_alerts a msg p))) = length (calls p) + 2) \<and>
       (manager_phones creds = [] \<longrightarrow>
          send_sms_alerts a msg p =
            (Some \<lparr>sidebar = sidebar p, calls = calls p, world = world p,
                   sent_count = 0, failed_count = 0\<rparr>, p)) \<and>
       ((\<forall>(phone, r) \<in> set outcomes. r = Returned) \<longrightarrow>
          calls (send_all_clear a msg p) =
            calls p @ map (\<lambda>phone. \<lparr>body = msg, from_number = phone_number creds,
                                     to_number = phone\<rparr>) recipients \<and>
          sidebar (send_all_clear a msg p) =
            sidebar p @ [Success [Lit ''All-clear notification sent!'']]))"
proof -
  let ?creds = "twilio_creds a"
  let ?recipients = "filter (\<lambda>phone. phone \<noteq> []) (manager_phones ?creds)"
  let ?outcomes = "deliveries (messages_create a) msg (phone_number ?creds) ?recipients (world p)"
  let ?start = "\<lparr>sidebar = sidebar p, calls = calls p, world = world p,
                  sent_count = 0, failed_count = 0\<rparr>"
  let ?st = "send_sms_loop (messages_create a) msg (phone_number ?creds) (manager_phones ?creds) ?start"
  have run: "send_sms_alerts a msg p =
     (Some ?st,
      \<lparr>sidebar = sidebar ?st
         @ (if sent_count ?st > 0
            then [Success [Lit ''Alert sent to '', Num_d (sent_count ?st), Lit '' manager(s)!'']]
            else [])
         @ (if failed_count ?st > 0
            then [Warning [Num_d (failed_count ?st), Lit '' message(s) failed to send'']]
            else []),
       calls = calls ?st, world = world ?st\<rparr>)"
    using ok by (simp add: send_sms_alerts_def Let_def)
  have sent: "sent_count ?st = length (filter (\<lambda>(phone, r). r = Returned) ?outcomes)"
    using sent_count_send_sms_loop[of "messages_create a" msg "phone_number ?creds"
        "manager_phones ?creds" ?start] by simp
  have failed: "failed_count ?st = length (filter (\<lambda>(phone, r). r \<noteq> Returned) ?outcomes)"
    using failed_count_send_sms_loop[of "messages_create a" msg "phone_number ?creds"
        "manager_phones ?creds" ?start] by simp
  have total: "sent_count ?st + failed_count ?st = length ?recipients"
    using counters_send_sms_loop[of "messages_create a" msg "phone_number ?creds"
        "manager_phones ?creds" ?start] by simp
  have calls: "calls ?st = calls p @ map (\<lambda>phone. \<lparr>body = msg,
      from_number = phone_number ?creds, to_number = phone\<rparr>) ?recipients"
    using calls_send_sms_loop[of "messages_create a" msg "phone_number ?creds"
        "manager_phones ?creds" ?start] by simp
  have lines: "sidebar ?st = sidebar p @ map outcome_line ?outcomes"
    using sidebar_send_sms_loop[of "messages_create a" msg "phone_number ?creds"
        "manager_phones ?creds" ?start] by simp
  have four: "length (calls (snd (send_sms_alerts a msg p))) = length (calls p) + 2"
    if "manager_phones ?creds = ['''', ''+1000'', '''', ''+1001'']"
    using that calls by (simp add: run)
  have none: "send_sms_alerts a msg p = (Some ?start, p)" if "manager_phones ?creds = []"
    using that ok by (rule_tac send_sms_alerts_no_recipient)
  have clear: "calls (send_all_clear a msg p) =
            calls p @ map (\<lambda>phone. \<lparr>body = msg, from_number = phone_number ?creds,
                                     to_number = phone\<rparr>) ?recipients \<and>
          sidebar (send_all_clear a msg p) =
            sidebar p @ [Success [Lit ''All-clear notification sent!'']]"
    if "\<forall>(phone, r) \<in> set ?outcomes. r = Returned"
  proof -
    obtain r p' where loop: "all_clear_loop (messages_create a) msg (phone_number ?creds)
        (manager_phones ?creds) p = (r, p')"
      by (cases "all_clear_loop (messages_create a) msg (phone_number ?creds)
        (manager_phones ?creds) p")
    from all_clear_loop_all_returned[OF that] loop
    have "r = None" "calls p' = calls p @ map (\<lambda>phone. \<lparr>body = msg,
        from_number = phone_number ?creds, to_number = phone\<rparr>) ?recipients"
      "sidebar p' = sidebar p"
      by simp_all
    with ok loop show ?thesis by (simp add: send_all_clear_def Let_def)
  qed
  let ?sent = "length (filter (\<lambda>(phone, r). r = Returned) ?outcomes)"
  let ?failed = "length (filter (\<lambda>(phone, r). r \<noteq> Returned) ?outcomes)"
  have c1: "map fst ?outcomes = ?recipients"
    by (rule map_fst_deliveries)
  have c2: "calls (snd (send_sms_alerts a msg p)) =
      calls p @ map (\<lambda>phone. \<lparr>body = msg, from_number = phone_number ?creds,
                               to_number = phone\<rparr>) ?recipients"
    by (simp add: run calls)
  have c3: "sidebar (snd (send_sms_alerts a msg p)) =
         sidebar p @ map outcome_line ?outcomes
           @ (if ?sent > 0
              then [Success [Lit ''Alert sent to '', Num_d ?sent, Lit '' manager(s)!'']] else [])
           @ (if ?failed > 0
              then [Warning [Num_d ?failed, Lit '' message(s) failed to send'']] else [])"
    unfolding run snd_conv page.simps lines sent failed by simp
  have c4: "map_option sent_count (fst (send_sms_alerts a msg p)) = Some ?sent"
    unfolding run fst_conv option.map sent ..
  have c5: "map_option failed_count (fst (send_sms_alerts a msg p)) = Some ?failed"
    unfolding run fst_conv option.map failed ..
  have c6: "?sent + ?failed = length ?recipients"
    using total unfolding sent failed .
  show ?thesis
    unfolding Let_def
    using c1 c2 c3 c4 c5 c6 four none clear
    by blast
qed

theorem send_sms_alerts_once_per_recipient_witness:
  "Client (sample_app\<lparr>twilio_creds :=
             (twilio_creds sample_app)\<lparr>manager_phones := ['''', ''+1000'', '''', ''+1001'']\<rparr>\<rparr>)
     ''AC1'' ''secret'' = Returned \<and>
   send_sms_alerts
     (sample_app\<lparr>twilio_creds :=
        (twilio_creds sample_app)\<lparr>manager_phones := ['''', ''+1000'', '''', ''+1001'']\<rparr>\<rparr>)
     [] sample_page =
     (Some \<lparr>sidebar = [Error [Lit ''Failed to send to '', Str ''1000'', Lit '': '',
                              Str ''unreachable''],
                       Success [Lit ''SMS sent to '', Str ''1001'']],
            calls = [\<lparr>body = [], from_number = ''+1999'', to_number = ''+1000''\<rparr>,
                     \<lparr>body = [], from_number = ''+1999'', to_number = ''+1001''\<rparr>],
            world = 2, sent_count = 1, failed_count = 1\<rparr>,
      \<lparr>sidebar = [Error [Lit ''Failed to send to '', Str ''1000'', Lit '': '',
                        Str ''unreachable''],
                 Success [Lit ''SMS sent to '', Str ''1001''],
                 Success [Lit ''Alert sent to '', Num_d 1, Lit '' manager(s)!''],
                 Warning [Num_d 1, Lit '' message(s) failed to send'']],
       calls = [\<lparr>body = [], from_number = ''+1999'', to_number = ''+1000''\<rparr>,
                \<lparr>body = [], from_number = ''+1999'', to_number = ''+1001''\<rparr>],
       world = 2\<rparr>) \<and>
   length (calls (snd (send_sms_alerts
     (sample_app\<lparr>twilio_creds :=
        (twilio_creds sample_app)\<lparr>manager_phones := ['''', ''+1000'', '''', ''+1001'']\<rparr>\<rparr>)
     [] sample_page))) = length (calls sample_page) + 2 \<and>
   deliveries sample_create [] ''+1999'' [''+1001''] 0 = [(''+1001'', Returned)] \<and>
   send_all_clear
     (sample_app\<lparr>twilio_creds :=
        (twilio_creds sample_app)\<lparr>manager_phones := ['''', ''+1001'']\<rparr>\<rparr>)
     [] sample_page =
     \<lparr>sidebar = [Success [Lit ''All-clear notification sent!'']],
      calls = [\<lparr>body = [], from_number = ''+1999'', to_number = ''+1001''\<rparr>],
      world = 1\<rparr>"
proof -
  let ?a = "sample_app\<lparr>twilio_creds :=
        (twilio_creds sample_app)\<lparr>manager_phones := ['''', ''+1000'', '''', ''+1001'']\<rparr>\<rparr>"
  have ok: "Client ?a (account_sid (twilio_creds ?a)) (auth_token (twilio_creds ?a)) = Returned"
    by (simp add: sample_app_def)
  have phones: "manager_phones (twilio_creds ?a) = ['''', ''+1000'', '''', ''+1001'']"
    by (simp add: sample_app_def)
  from send_sms_alerts_once_per_recipient[OF ok, of "[]" sample_page] phones
  have two: "length (calls (snd (send_sms_alerts ?a [] sample_page))) =
      length (calls sample_page) + 2"
    unfolding Let_def by blast
  have run: "send_sms_alerts ?a [] sample_page =
     (Some \<lparr>sidebar = [Error [Lit ''Failed to send to '', Str ''1000'', Lit '': '',
                              Str ''unreachable''],
                       Success [Lit ''SMS sent to '', Str ''1001'']],
            calls = [\<lparr>body = [], from_number = ''+1999'', to_number = ''+1000''\<rparr>,
                     \<lparr>body = [], from_number = ''+1999'', to_number = ''+1001''\<rparr>],
            world = 2, sent_count = 1, failed_count = 1\<rparr>,
      \<lparr>sidebar = [Error [Lit ''Failed to send to '', Str ''1000'', Lit '': '',
                        Str ''unreachable''],
                 Success [Lit ''SMS sent to '', Str ''1001''],
                 Success [Lit ''Alert sent to '', Num_d 1, Lit '' manager(s)!''],
                 Warning [Num_d 1, Lit '' message(s) failed to send'']],
       calls = [\<lparr>body = [], from_number = ''+1999'', to_number = ''+1000''\<rparr>,
                \<lparr>body = [], from_number = ''+1999'', to_number = ''+1001''\<rparr>],
       world = 2\<rparr>)"
    by (simp add: send_sms_alerts_def sample_app_def sample_page_def sample_create_def
        last4_def Let_def)
  have clear: "send_all_clear
     (sample_app\<lparr>twilio_creds :=
        (twilio_creds sample_app)\<lparr>manager_phones := ['''', ''+1001'']\<rparr>\<rparr>)
     [] sample_page =
     \<lparr>sidebar = [Success [Lit ''All-clear notification sent!'']],
      calls = [\<lparr>body = [], from_number = ''+1999'', to_number = ''+1001''\<rparr>],
      world = 1\<rparr>"
    by (simp add: send_all_clear_def sample_app_def sample_page_def sample_create_def Let_def)
  have outcomes: "deliveries sample_create [] ''+1999'' [''+1001''] 0 = [(''+1001'', Returned)]"
    by (simp add: sample_create_def)
  from ok two run clear outcomes show ?thesis
    by (simp only: sample_app_def app.simps creds.simps simp_thms)
qed

text \<open>
  Claim C4, as it is stated, fails for an entry that is blank but not empty: a
  recipient of one space is true as a condition, so line 538 does not pass over it. It
  is attempted, and with a transport that delivers it is counted as sent.
\<close>

theorem whitespace_recipient_is_attempted:
  "send_sms_alerts
     (sample_app\<lparr>twilio_creds := (twilio_creds sample_app)\<lparr>manager_phones := ['' '']\<rparr>\<rparr>)
     [] sample_page =
     (Some \<lparr>sidebar = [Success [Lit ''SMS sent to '', Str '' '']],
            calls = [\<lparr>body = [], from_number = ''+1999'', to_number = '' ''\<rparr>],
            world = 1, sent_count = 1, failed_count = 0\<rparr>,
      \<lparr>sidebar = [Success [Lit ''SMS sent to '', Str '' ''],
                 Success [Lit ''Alert sent to '', Num_d 1, Lit '' manager(s)!'']],
       calls = [\<lparr>body = [], from_number = ''+1999'', to_number = '' ''\<rparr>],
       world = 1\<rparr>)"
  by (simp add: send_sms_alerts_def sample_app_def sample_page_def sample_create_def
      last4_def Let_def)



section \<open>Properties of the thresholds\<close>

text \<open>
  The thresholds reach the evaluation as the values of the two sliders, whose initial
  values lie inside their ranges. The script has no check of a threshold and no error
  for one: the evaluation selects with the two values as they are given.
\<close>

lemma thresholds_used_as_given:
  "battery_threshold_min \<le> battery_threshold_value \<and>
   battery_threshold_value \<le> battery_threshold_max \<and>
   service_days_min \<le> service_days_value \<and>
   service_days_value \<le> service_days_max \<and>
   map fst (high_risk_tagged units battery_threshold service_days now now) =
     filter (\<lambda>u. battery_level u < of_int battery_threshold \<or> fault_reports u \<ge> 3 \<or>
                  uptime_percentage u < 85 \<or>
                  (now - last_service u) div 86400000000 > service_days)
       units"
proof -
  have "map fst (risk_reason hr battery_threshold service_days now) = hr" for hr
    by (simp add: risk_reason_map comp_def)
  then show ?thesis
    by (simp add: high_risk_tagged_map high_risk_def low_battery_def multiple_faults_def
        low_uptime_def service_due_def days_def us_per_day_def battery_threshold_min_def
        battery_threshold_max_def battery_threshold_value_def service_days_min_def
        service_days_max_def service_days_value_def)
qed

section \<open>Properties of the message texts\<close>

lemma sublist_step:
  "sublist (x # xs) (y # ys) = (prefix (x # xs) (y # ys) \<or> sublist (x # xs) ys)"
  by (simp add: sublist_code)

lemma label_in_reason:
  fixes a b c d :: bool
  defines "r \<equiv> (if a then ''Low Battery; '' else '''') @
            (if b then ''Multiple Faults; '' else '''') @
            (if c then ''Low Uptime; '' else '''') @ (if d then ''Service Due; '' else '''')"
  shows "sublist ''Low Battery; '' r = a"
    and "sublist ''Multiple Faults; '' r = b"
    and "sublist ''Low Uptime; '' r = c"
    and "sublist ''Service Due; '' r = d"
  unfolding r_def
  by (cases a; cases b; cases c; cases d; simp add: sublist_step)+

lemma filter_by_label:
  "filter (\<lambda>(s, reason). low_battery bt s) (risk_reason hr bt sd now) =
     filter (\<lambda>(s, reason). sublist ''Low Battery; '' reason) (risk_reason hr bt sd now)"
  "filter (\<lambda>(s, reason). multiple_faults s) (risk_reason hr bt sd now) =
     filter (\<lambda>(s, reason). sublist ''Multiple Faults; '' reason) (risk_reason hr bt sd now)"
  "filter (\<lambda>(s, reason). low_uptime s) (risk_reason hr bt sd now) =
     filter (\<lambda>(s, reason). sublist ''Low Uptime; '' reason) (risk_reason hr bt sd now)"
  "filter (\<lambda>(s, reason). service_due sd now s) (risk_reason hr bt sd now) =
     filter (\<lambda>(s, reason). sublist ''Service Due; '' reason) (risk_reason hr bt sd now)"
  by (simp_all add: risk_reason_map filter_map comp_def label_in_reason)

text \<open>
  Claim C9. For the flagged units of an evaluation at the instant \<open>now\<close>, the risk
  message composed at the same instant has the number of flagged units, then for each
  of the four reasons the number of flagged units whose reason text has the label of
  that reason in it (a unit with two labels counts for both), then the three fixed
  action items, then the time. Whenever there is a flagged unit, the first thing the
  alert button writes is the preview of that message.
\<close>

theorem alert_summary_counts:
  "alert_summary (high_risk_tagged units battery_threshold service_days now now)
       battery_threshold service_days now now_time =
     [[],
      [Lit ''BOUNCE FLEET ALERT''],
      [],
      [Lit ''High-Risk Scooters: '',
         Num_d (length (high_risk_tagged units battery_threshold service_days now now))],
      [],
      [Lit ''Breakdown:''],
      [Lit ''Low Battery: '',
         Num_d (length (filter (\<lambda>(u, reason). sublist ''Low Battery; '' reason)
           (high_risk_tagged units battery_threshold service_days now now)))],
      [Lit ''High Fault Reports: '',
         Num_d (length (filter (\<lambda>(u, reason). sublist ''Multiple Faults; '' reason)
           (high_risk_tagged units battery_threshold service_days now now)))],
      [Lit ''Low Uptime: '',
         Num_d (length (filter (\<lambda>(u, reason). sublist ''Low Uptime; '' reason)
           (high_risk_tagged units battery_threshold service_days now now)))],
      [Lit ''Service Overdue: '',
         Num_d (length (filter (\<lambda>(u, reason). sublist ''Service Due; '' reason)
           (high_risk_tagged units battery_threshold service_days now now)))],
      [],
      [Lit ''Actions Required:''],
      [Lit ''1. Dispatch battery swap crews''],
      [Lit ''2. Schedule maintenance''],
      [Lit ''3. Review hub distribution''],
      [],
      [Lit ''Time: '', Time_HM_DMY now_time],
      [Lit ''        '']] \<and>
   sidebar (send_alerts a (flagged # more_flagged) battery_threshold service_days fleet_total
              fleet_utilization fleet_active now_count now_time p) ! length (sidebar p) =
     Text_area ''Alert Message Preview:''
       (alert_summary (flagged # more_flagged) battery_threshold service_days now_count now_time)"
proof
  show "alert_summary (high_risk_tagged units battery_threshold service_days now now)
       battery_threshold service_days now now_time =
     [[],
      [Lit ''BOUNCE FLEET ALERT''],
      [],
      [Lit ''High-Risk Scooters: '',
         Num_d (length (high_risk_tagged units battery_threshold service_days now now))],
      [],
      [Lit ''Breakdown:''],
      [Lit ''Low Battery: '',
         Num_d (length (filter (\<lambda>(u, reason). sublist ''Low Battery; '' reason)
           (high_risk_tagged units battery_threshold service_days now now)))],
      [Lit ''High Fault Reports: '',
         Num_d (length (filter (\<lambda>(u, reason). sublist ''Multiple Faults; '' reason)
           (high_risk_tagged units battery_threshold service_days now now)))],
      [Lit ''Low Uptime: '',
         Num_d (length (filter (\<lambda>(u, reason). sublist ''Low Uptime; '' reason)
           (high_risk_tagged units battery_threshold service_days now now)))],
      [Lit ''Service Overdue: '',
         Num_d (length (filter (\<lambda>(u, reason). sublist ''Service Due; '' reason)
           (high_risk_tagged units battery_threshold service_days now now)))],
      [],
      [Lit ''Actions Required:''],
      [Lit ''1. Dispatch battery swap crews''],
      [Lit ''2. Schedule maintenance''],
      [Lit ''3. Review hub distribution''],
      [],
      [Lit ''Time: '', Time_HM_DMY now_time],
      [Lit ''        '']]"
    unfolding alert_summary_def high_risk_tagged_map filter_by_label ..
next
  let ?preview = "Text_area ''Alert Message Preview:''
       (alert_summary (flagged # more_flagged) battery_threshold service_days now_count now_time)"
  let ?p1 = "p\<lparr>sidebar := sidebar p @ [?preview]\<rparr>"
  obtain more where "sidebar (snd (send_sms_alerts a
      (alert_summary (flagged # more_flagged) battery_threshold service_days now_count now_time)
      ?p1)) = sidebar ?p1 @ more"
    using sidebar_send_sms_alerts by blast
  then show "sidebar (send_alerts a (flagged # more_flagged) battery_threshold service_days
              fleet_total fleet_utilization fleet_active now_count now_time p) ! length (sidebar p) =
     ?preview"
    by (simp add: send_alerts_def Let_def nth_append)
qed

text \<open>
  Claim C5. With no flagged unit, every message the alert button hands to the transport
  is the all-clear text for the fleet metrics it was given, and with a ready channel
  and a first recipient that is not empty such a message is handed over. That text has
  the total, the utilization and the active rides in it, whatever their values, zero
  included; its heading differs from the heading of the risk text, so it is no risk
  text, whatever the flagged units and thresholds of the risk text are.
\<close>

theorem all_clear_message_shape:
  "(\<forall>m \<in> set (calls (send_alerts a [] battery_threshold service_days fleet_total
                        fleet_utilization fleet_active now_count now_time p)).
      m \<in> set (calls p) \<or>
      body m = all_clear_msg fleet_total fleet_utilization fleet_active now_time) \<and>
   (configured a \<and> all_clear_button a \<and>
    Client a (account_sid (twilio_creds a)) (auth_token (twilio_creds a)) = Returned \<and>
    manager_phones (twilio_creds a) = phone # phones \<and> phone \<noteq> [] \<longrightarrow>
      calls (send_alerts a [] battery_threshold service_days fleet_total
               fleet_utilization fleet_active now_count now_time p) ! length (calls p) =
        \<lparr>body = all_clear_msg fleet_total fleet_utilization fleet_active now_time,
         from_number = phone_number (twilio_creds a), to_number = phone\<rparr>) \<and>
   all_clear_msg fleet_total fleet_utilization fleet_active now_time ! 1 =
     [Lit ''BOUNCE FLEET STATUS: ALL CLEAR''] \<and>
   alert_summary hr battery_threshold' service_days' now_count' now_time' ! 1 =
     [Lit ''BOUNCE FLEET ALERT''] \<and>
   all_clear_msg fleet_total fleet_utilization fleet_active now_time \<noteq>
     alert_summary hr battery_threshold' service_days' now_count' now_time' \<and>
   [Lit ''Total Scooters: '', Num_d fleet_total]
     \<in> set (all_clear_msg fleet_total fleet_utilization fleet_active now_time) \<and>
   [Lit ''Utilization: '', Num_1f fleet_utilization, Lit ''%'']
     \<in> set (all_clear_msg fleet_total fleet_utilization fleet_active now_time) \<and>
   [Lit ''Active Rides: '', Num_d fleet_active]
     \<in> set (all_clear_msg fleet_total fleet_utilization fleet_active now_time)"
proof -
  let ?msg = "all_clear_msg fleet_total fleet_utilization fleet_active now_time"
  let ?p1 = "p\<lparr>sidebar := sidebar p @
                      [Info [Lit ''No alerts to send - all systems operational!'']]\<rparr>"
  have sent: "m \<in> set (calls p) \<or> body m = ?msg"
    if "m \<in> set (calls (send_all_clear a ?msg ?p1))" for m
  proof (cases "Client a (account_sid (twilio_creds a)) (auth_token (twilio_creds a))")
    case Returned
    from that have "m \<in> set (calls (snd (all_clear_loop (messages_create a) ?msg
        (phone_number (twilio_creds a)) (manager_phones (twilio_creds a)) ?p1)))"
      by (simp add: calls_send_all_clear[OF Returned])
    from calls_all_clear_loop[OF this] show ?thesis by simp
  next
    case (Raised e)
    with that show ?thesis by (simp add: send_all_clear_def Let_def)
  qed
  have every: "\<forall>m \<in> set (calls (send_alerts a [] battery_threshold service_days fleet_total
                        fleet_utilization fleet_active now_count now_time p)).
      m \<in> set (calls p) \<or> body m = ?msg"
    using sent by (auto simp: send_alerts_def Let_def)
  have first: "calls (send_alerts a [] battery_threshold service_days fleet_total
               fleet_utilization fleet_active now_count now_time p) ! length (calls p) =
        \<lparr>body = ?msg, from_number = phone_number (twilio_creds a), to_number = phone\<rparr>"
    if "configured a" and "all_clear_button a"
      and ok: "Client a (account_sid (twilio_creds a)) (auth_token (twilio_creds a)) = Returned"
      and "manager_phones (twilio_creds a) = phone # phones" and "phone \<noteq> []"
    using that all_clear_loop_first_call[of phone "messages_create a" ?msg
        "phone_number (twilio_creds a)" phones ?p1]
    by (simp add: send_alerts_def Let_def calls_send_all_clear[OF ok])
  have differ: "?msg \<noteq> alert_summary hr battery_threshold' service_days' now_count' now_time'"
    by (simp add: all_clear_msg_def alert_summary_def)
  have kinds: "?msg ! 1 = [Lit ''BOUNCE FLEET STATUS: ALL CLEAR'']"
    "alert_summary hr battery_threshold' service_days' now_count' now_time' ! 1 =
       [Lit ''BOUNCE FLEET ALERT'']"
    by (simp_all add: all_clear_msg_def alert_summary_def)
  have carries: "[Lit ''Total Scooters: '', Num_d fleet_total] \<in> set ?msg"
    "[Lit ''Utilization: '', Num_1f fleet_utilization, Lit ''%''] \<in> set ?msg"
    "[Lit ''Active Rides: '', Num_d fleet_active] \<in> set ?msg"
    by (simp_all add: all_clear_msg_def)
  from every first differ kinds carries show ?thesis by blast
qed

theorem all_clear_message_shape_witness:
  "configured sample_app \<and> all_clear_button sample_app \<and>
   Client sample_app ''AC1'' ''secret'' = Returned \<and>
   manager_phones (twilio_creds sample_app) = [''+1000'', ''+1001''] \<and>
   calls (send_alerts sample_app [] 20 60 2 0 0 0 0 sample_page) =
     [\<lparr>body = all_clear_msg 2 0 0 0, from_number = ''+1999'', to_number = ''+1000''\<rparr>] \<and>
   all_clear_msg 2 0 0 0 \<noteq> alert_summary [] 20 60 0 0"
proof -
  have run: "calls (send_alerts sample_app [] 20 60 2 0 0 0 0 sample_page) =
     [\<lparr>body = all_clear_msg 2 0 0 0, from_number = ''+1999'', to_number = ''+1000''\<rparr>]"
    by (simp add: send_alerts_def configured_def send_all_clear_def sample_app_def
        sample_page_def sample_create_def Let_def)
  from all_clear_message_shape[of sample_app 20 60 2 0 0 0 0 sample_page
      "''+1000''" "[''+1001'']" "[]" 20 60 0 0]
  have "\<forall>m \<in> set (calls (send_alerts sample_app [] 20 60 2 0 0 0 0 sample_page)).
          m \<in> set (calls sample_page) \<or> body m = all_clear_msg 2 0 0 0"
    and "all_clear_msg 2 0 0 0 \<noteq> alert_summary [] 20 60 0 0"
    by blast+
  with run show ?thesis by (simp add: sample_page_def sample_app_def configured_def)
qed

section \<open>Properties of the channel guard\<close>

text \<open>
  Claim C6. When the channel is not configured (the package is missing, or the session
  has no credentials), or when making the client raises, the alert button calls the
  transport for no recipient and leaves the world as it was. What it writes to the
  sidebar differs from what a ready channel with an empty recipient list writes; for a
  risk alert its last line is one of the three notices of lines 558 to 565.
\<close>

theorem channel_unavailable_no_attempt:
  assumes "\<not> configured a \<or>
           (send_sms_button a \<and> all_clear_button a \<and>
            Client a (account_sid (twilio_creds a)) (auth_token (twilio_creds a)) = Raised e)"
    and "configured b" and "send_sms_button b" and "all_clear_button b"
    and "Client b (account_sid (twilio_creds b)) (auth_token (twilio_creds b)) = Returned"
    and "manager_phones (twilio_creds b) = []"
  shows "calls (send_alerts a hr battery_threshold service_days fleet_total fleet_utilization
                  fleet_active now_count now_time p) = calls p \<and>
         world (send_alerts a hr battery_threshold service_days fleet_total fleet_utilization
                  fleet_active now_count now_time p) = world p \<and>
         sidebar (send_alerts a hr battery_threshold service_days fleet_total fleet_utilization
                  fleet_active now_count now_time p) \<noteq>
         sidebar (send_alerts b hr battery_threshold service_days fleet_total fleet_utilization
                  fleet_active now_count now_time p) \<and>
         (hr \<noteq> [] \<longrightarrow>
            last (sidebar (send_alerts a hr battery_threshold service_days fleet_total
                    fleet_utilization fleet_active now_count now_time p)) =
              Warning [Lit ''Configure Twilio credentials above to send SMS alerts''] \<or>
            last (sidebar (send_alerts a hr battery_threshold service_days fleet_total
                    fleet_utilization fleet_active now_count now_time p)) =
              Info [Lit ''Alert summary generated! Install Twilio package for SMS functionality.''] \<or>
            last (sidebar (send_alerts a hr battery_threshold service_days fleet_total
                    fleet_utilization fleet_active now_count now_time p)) =
              Info [Lit ''Check your Twilio credentials and phone numbers''])"
proof -
  have ready: "sidebar (send_alerts b hr battery_threshold service_days fleet_total
                  fleet_utilization fleet_active now_count now_time p) =
     (if hr \<noteq> []
      then sidebar p @ [Text_area ''Alert Message Preview:''
             (alert_summary hr battery_threshold service_days now_count now_time)]
      else sidebar p @ [Info [Lit ''No alerts to send - all systems operational!''],
                        Success [Lit ''All-clear notification sent!'']])"
    using assms(2-6)
    by (simp add: send_alerts_def send_sms_alerts_def send_all_clear_def Let_def)
  from assms(1) show ?thesis
  proof
    assume "\<not> configured a"
    then show ?thesis
      unfolding ready by (simp add: send_alerts_def Let_def)
  next
    assume "send_sms_button a \<and> all_clear_button a \<and>
            Client a (account_sid (twilio_creds a)) (auth_token (twilio_creds a)) = Raised e"
    then show ?thesis
      unfolding ready
      by (cases "configured a")
         (simp_all add: send_alerts_def send_sms_alerts_def send_all_clear_def Let_def)
  qed
qed

theorem channel_unavailable_no_attempt_witness:
  "\<not> configured (sample_app\<lparr>twilio_configured := None\<rparr>) \<and>
   send_alerts (sample_app\<lparr>twilio_configured := None\<rparr>) [(sample_unit, ''Low Uptime; '')]
       20 60 1 0 0 0 0 sample_page =
     \<lparr>sidebar = [Text_area ''Alert Message Preview:''
                   (alert_summary [(sample_unit, ''Low Uptime; '')] 20 60 0 0),
                 Warning [Lit ''Configure Twilio credentials above to send SMS alerts'']],
      calls = [], world = 0\<rparr> \<and>
   send_alerts (sample_app\<lparr>twilio_creds := (twilio_creds sample_app)\<lparr>manager_phones := []\<rparr>\<rparr>)
       [(sample_unit, ''Low Uptime; '')] 20 60 1 0 0 0 0 sample_page =
     \<lparr>sidebar = [Text_area ''Alert Message Preview:''
                   (alert_summary [(sample_unit, ''Low Uptime; '')] 20 60 0 0)],
      calls = [], world = 0\<rparr>"
  using channel_unavailable_no_attempt
    [of "sample_app\<lparr>twilio_configured := None\<rparr>" "''none''"
        "sample_app\<lparr>twilio_creds := (twilio_creds sample_app)\<lparr>manager_phones := []\<rparr>\<rparr>"
        "[(sample_unit, ''Low Uptime; '')]" 20 60 1 0 0 0 0 sample_page]
  by (simp add: send_alerts_def configured_def send_sms_alerts_def sample_app_def
      sample_page_def Let_def)

end
